theory Spec2Isabelle
  imports Complex_Main "HOL-Library.AList" "HOL-Library.Monad_Syntax"
begin

section \<open>Exceptions\<close>

text \<open>
  Every exception the modelled code can raise is a value. The first six are the
  library's own classes (\<^verbatim>\<open>exceptions.py\<close>), each carrying its message; the others
  are the interpreter's built-in exceptions that the code lets escape.
\<close>

datatype error =
    FilterInvalidArgument string
  | NodeCreationError string
  | NodeConnectionFailure string
  | NoNodesAvailable string
  | TrackLoadError string
  | InvalidSpotifyClientAuthorization string
  | ValueError string
  | KeyError
  | IndexError
  | TypeError
  | AttributeError

text \<open>The apostrophe, for the messages that quote an identifier.\<close>

definition apos :: string where
  "apos = [CHR 0x27]"

section \<open>Filters (\<^verbatim>\<open>filters.py\<close>)\<close>

text \<open>
  A filter's payload is a dictionary with one key, the filter's name, whose value is a
  dictionary of named numbers. Dictionaries are association lists in insertion order.
  Python's numbers are modelled as reals: the constructors only compare them with
  constants and store them.
\<close>

type_synonym payload = "(string \<times> (string \<times> real) list) list"

text \<open>
  A filter object: the class, its attributes in the order the constructor assigns
  them, and last its payload.
\<close>

datatype filter =
    Timescale real real real payload
  | Tremolo real real payload
  | Vibrato real real payload
  | ChannelMix real real real real payload

fun payload_of :: "filter \<Rightarrow> payload" where
  "payload_of (Timescale _ _ _ p) = p"
| "payload_of (Tremolo _ _ p) = p"
| "payload_of (Vibrato _ _ p) = p"
| "payload_of (ChannelMix _ _ _ _ p) = p"

text \<open>
  A keyword argument with a default: \<open>None\<close> is an argument the caller left out.
\<close>

fun kwarg :: "'a \<Rightarrow> 'a option \<Rightarrow> 'a" where
  "kwarg d None = d"
| "kwarg d (Some v) = v"

text \<open>\<^verbatim>\<open>Timescale.__init__(self, *, speed=1.0, pitch=1.0, rate=1.0)\<close>\<close>

definition Timescale_init :: "real option \<Rightarrow> real option \<Rightarrow> real option \<Rightarrow> error + filter" where
  "Timescale_init speed_arg pitch_arg rate_arg =
     (let speed = kwarg 1.0 speed_arg; pitch = kwarg 1.0 pitch_arg; rate = kwarg 1.0 rate_arg in
      if speed < 0 then Inl (FilterInvalidArgument ''Timescale speed must be more than 0.'')
      else if pitch < 0 then Inl (FilterInvalidArgument ''Timescale pitch must be more than 0.'')
      else if rate < 0 then Inl (FilterInvalidArgument ''Timescale rate must be more than 0.'')
      else Inr (Timescale speed pitch rate
             [(''timescale'', [(''speed'', speed), (''pitch'', pitch), (''rate'', rate)])]))"

text \<open>\<^verbatim>\<open>Tremolo.__init__(self, *, frequency=2.0, depth=0.5)\<close>\<close>

definition Tremolo_init :: "real option \<Rightarrow> real option \<Rightarrow> error + filter" where
  "Tremolo_init frequency_arg depth_arg =
     (let frequency = kwarg 2.0 frequency_arg; depth = kwarg 0.5 depth_arg in
      if frequency < 0 then Inl (FilterInvalidArgument ''Tremolo frequency must be more than 0.'')
      else if depth < 0 \<or> depth > 1 then
        Inl (FilterInvalidArgument ''Tremolo depth must be between 0 and 1.'')
      else Inr (Tremolo frequency depth
             [(''tremolo'', [(''frequency'', frequency), (''depth'', depth)])]))"

text \<open>\<^verbatim>\<open>Vibrato.__init__(self, *, frequency=2.0, depth=0.5)\<close>\<close>

definition Vibrato_init :: "real option \<Rightarrow> real option \<Rightarrow> error + filter" where
  "Vibrato_init frequency_arg depth_arg =
     (let frequency = kwarg 2.0 frequency_arg; depth = kwarg 0.5 depth_arg in
      if frequency < 0 \<or> frequency > 14 then
        Inl (FilterInvalidArgument ''Vibrato frequency must be between 0 and 14.'')
      else if depth < 0 \<or> depth > 1 then
        Inl (FilterInvalidArgument ''Vibrato depth must be between 0 and 1.'')
      else Inr (Vibrato frequency depth
             [(''vibrato'', [(''frequency'', frequency), (''depth'', depth)])]))"

text \<open>
  \<^verbatim>\<open>ChannelMix.__init__(self, *, left_to_left=1, right_to_right=1, left_to_right=0,
  right_to_left=0)\<close>. Each guard is the chained comparison \<^verbatim>\<open>0 > x > 1\<close>, which Python
  reads as \<^verbatim>\<open>0 > x and x > 1\<close>; the exception the guards name is \<^verbatim>\<open>ValueError\<close>.
\<close>

definition range_message :: "string \<Rightarrow> string" where
  "range_message name =
     apos @ name @ apos @ '' value must be more than or equal to 0 or less than or equal to 1.''"

definition ChannelMix_init ::
  "real option \<Rightarrow> real option \<Rightarrow> real option \<Rightarrow> real option \<Rightarrow> error + filter" where
  "ChannelMix_init left_to_left_arg right_to_right_arg left_to_right_arg right_to_left_arg =
     (let left_to_left = kwarg 1 left_to_left_arg;
          right_to_right = kwarg 1 right_to_right_arg;
          left_to_right = kwarg 0 left_to_right_arg;
          right_to_left = kwarg 0 right_to_left_arg in
      if 0 > left_to_left \<and> left_to_left > 1 then
        Inl (ValueError (range_message ''left_to_left''))
      else if 0 > right_to_right \<and> right_to_right > 1 then
        Inl (ValueError (range_message ''right_to_right''))
      else if 0 > left_to_right \<and> left_to_right > 1 then
        Inl (ValueError (range_message ''left_to_right''))
      else if 0 > right_to_left \<and> right_to_left > 1 then
        Inl (ValueError (range_message ''right_to_left''))
      else Inr (ChannelMix left_to_left left_to_right right_to_left right_to_right
             [(''channelMix'',
                [(''leftToLeft'', left_to_left), (''leftToRight'', left_to_right),
                 (''rightToLeft'', right_to_left), (''rightToRight'', right_to_right)])]))"

section \<open>JSON values and the interpreter's operations on them\<close>

text \<open>
  The values \<^verbatim>\<open>json\<close> decoding produces. Objects are association lists in document
  order. Numbers are integers (the fields the code reads are identifiers, lengths and
  positions).
\<close>

datatype json =
    JNull
  | JBool bool
  | JNum int
  | JStr string
  | JArr "json list"
  | JObj "(string \<times> json) list"

text \<open>Truth value testing, as \<^verbatim>\<open>if not x\<close> applies it.\<close>

fun truthy :: "json \<Rightarrow> bool" where
  "truthy JNull = False"
| "truthy (JBool b) = b"
| "truthy (JNum n) = (n \<noteq> 0)"
| "truthy (JStr s) = (s \<noteq> [])"
| "truthy (JArr xs) = (xs \<noteq> [])"
| "truthy (JObj kvs) = (kvs \<noteq> [])"

text \<open>\<^verbatim>\<open>x.get(key)\<close>: only a dictionary has the method; a missing key gives \<^verbatim>\<open>None\<close>.\<close>

fun dict_get :: "json \<Rightarrow> string \<Rightarrow> error + json" where
  "dict_get (JObj kvs) k = (case map_of kvs k of None \<Rightarrow> Inr JNull | Some v \<Rightarrow> Inr v)"
| "dict_get _ k = Inl AttributeError"

text \<open>
  \<^verbatim>\<open>x[key]\<close> with a string key: \<^verbatim>\<open>KeyError\<close> on a dictionary without the key,
  \<^verbatim>\<open>TypeError\<close> on every other value.
\<close>

fun getitem :: "json \<Rightarrow> string \<Rightarrow> error + json" where
  "getitem (JObj kvs) k = (case map_of kvs k of None \<Rightarrow> Inl KeyError | Some v \<Rightarrow> Inr v)"
| "getitem _ k = Inl TypeError"

text \<open>
  \<^verbatim>\<open>x[0]\<close>: the first element of a list or the first character of a string,
  \<^verbatim>\<open>IndexError\<close> when there is none; a decoded dictionary has string keys only, so the
  key \<^verbatim>\<open>0\<close> is a \<^verbatim>\<open>KeyError\<close>; other values are not subscriptable.
\<close>

fun getitem0 :: "json \<Rightarrow> error + json" where
  "getitem0 (JArr []) = Inl IndexError"
| "getitem0 (JArr (x # xs)) = Inr x"
| "getitem0 (JStr []) = Inl IndexError"
| "getitem0 (JStr (c # cs)) = Inr (JStr [c])"
| "getitem0 (JObj kvs) = Inl KeyError"
| "getitem0 _ = Inl TypeError"

text \<open>
  \<^verbatim>\<open>for x in v\<close>: the elements of a list, the characters of a string, the keys of a
  dictionary; other values are not iterable.
\<close>

fun iterate :: "json \<Rightarrow> error + json list" where
  "iterate (JArr xs) = Inr xs"
| "iterate (JStr s) = Inr (map (\<lambda>c. JStr [c]) s)"
| "iterate (JObj kvs) = Inr (map (\<lambda>kv. JStr (fst kv)) kvs)"
| "iterate _ = Inl TypeError"

text \<open>A comprehension whose element expression can raise stops at the first exception.\<close>

fun comprehension :: "('a \<Rightarrow> error + 'b) \<Rightarrow> 'a list \<Rightarrow> error + 'b list" where
  "comprehension f [] = Inr []"
| "comprehension f (x # xs) =
     (case f x of
        Inl e \<Rightarrow> Inl e
      | Inr y \<Rightarrow> (case comprehension f xs of Inl e \<Rightarrow> Inl e | Inr ys \<Rightarrow> Inr (y # ys)))"

section \<open>Nodes (\<^verbatim>\<open>pool.py\<close>, class \<^verbatim>\<open>Node\<close>)\<close>

text \<open>
  The objects a node refers to but does not own are handles: its sessions (players),
  its socket and its receive task. A call on one of them is recorded, in order, as a
  \<open>call\<close>; what the callee does is outside \<^verbatim>\<open>src/\<close>.
\<close>

datatype player = Player nat
datatype websocket = WebSocket nat
datatype task = ListenTask

datatype call =
    dispatch_event player json
  | update_state player json
  | destroy player
  | ws_close websocket
  | task_cancel task

text \<open>
  What \<^verbatim>\<open>Node.__init__\<close> receives as \<^verbatim>\<open>pool\<close>. \<^verbatim>\<open>NodePool.create_node\<close> is a class
  method and passes \<^verbatim>\<open>pool=cls\<close>, the class itself; a caller constructing a
  \<^verbatim>\<open>Node\<close> by hand can pass an instance \<^verbatim>\<open>NodePool()\<close>.
\<close>

datatype pool_ref = PoolClass | PoolInstance

text \<open>
  The attributes of a node. A field \<open>x\<close> is the attribute \<^verbatim>\<open>_x\<close> of the source (a name
  cannot start with an underscore here), with two exceptions: \<open>spotify_client\<close> is
  \<open>None\<close> while the attribute \<^verbatim>\<open>_spotify_client\<close> does not exist, \<open>stats\<close> is \<open>None\<close>
  while \<^verbatim>\<open>_stats\<close> does not exist; and \<open>available_attr\<close> is the attribute
  \<^verbatim>\<open>available\<close> (no underscore) that \<^verbatim>\<open>disconnect\<close> assigns, \<open>None\<close> while it
  does not exist. \<open>available = None\<close> is Python's \<^verbatim>\<open>None\<close>, the value
  \<^verbatim>\<open>__init__\<close> gives \<^verbatim>\<open>_available\<close>. The bot, the HTTP session, the two URIs and
  the headers are left out: no operation below branches on them.
\<close>

record node =
  host :: string
  port :: int
  password :: string
  "identifier" :: string
  secure :: bool
  pool :: pool_ref
  websocket :: "websocket option"
  task :: "task option"
  available :: "bool option"
  players :: "(int \<times> player) list"
  spotify_client_id :: "string option"
  spotify_client_secret :: "string option"
  spotify_client :: "(string \<times> string) option"
  stats :: "json option"
  available_attr :: "bool option"

text \<open>Truth value of an optional string (\<^verbatim>\<open>None\<close> and \<^verbatim>\<open>""\<close> are false) and of a flag.\<close>

fun truthy_str :: "string option \<Rightarrow> bool" where
  "truthy_str None = False"
| "truthy_str (Some s) = (s \<noteq> [])"

fun truthy_flag :: "bool option \<Rightarrow> bool" where
  "truthy_flag None = False"
| "truthy_flag (Some b) = b"

text \<open>\<^verbatim>\<open>Node.__init__\<close>: the catalog client exists only when both credentials are true.\<close>

definition Node_init ::
  "pool_ref \<Rightarrow> string \<Rightarrow> int \<Rightarrow> string \<Rightarrow> string \<Rightarrow> bool \<Rightarrow> string option \<Rightarrow> string option \<Rightarrow> node" where
  "Node_init pool_arg host_arg port_arg password_arg identifier_arg secure_arg
     spotify_client_id_arg spotify_client_secret_arg =
     \<lparr> host = host_arg, port = port_arg, password = password_arg,
       identifier = identifier_arg, secure = secure_arg, pool = pool_arg,
       websocket = None, task = None, available = None, players = [],
       spotify_client_id = spotify_client_id_arg,
       spotify_client_secret = spotify_client_secret_arg,
       spotify_client =
         (case (spotify_client_id_arg, spotify_client_secret_arg) of
            (Some i, Some s) \<Rightarrow>
              if truthy_str (Some i) \<and> truthy_str (Some s) then Some (i, s) else None
          | _ \<Rightarrow> None),
       stats = None, available_attr = None \<rparr>"

text \<open>\<^verbatim>\<open>player_count\<close>: \<^verbatim>\<open>len(self.players)\<close>.\<close>

definition player_count :: "node \<Rightarrow> nat" where
  "player_count n = length (players n)"

text \<open>
  \<^verbatim>\<open>Node.send\<close>. The message of the exception reads \<^verbatim>\<open>self.identifier\<close>, an attribute
  the class does not define (it defines \<^verbatim>\<open>_identifier\<close>), so on an unavailable node
  the f-string raises \<^verbatim>\<open>AttributeError\<close> before \<^verbatim>\<open>NodeNotAvailable\<close> is built. The
  write to the socket is taken to succeed.
\<close>

definition send :: "node \<Rightarrow> error + unit" where
  "send self = (if \<not> truthy_flag (available self) then Inl AttributeError else Inr ())"

text \<open>
  The outcome of \<^verbatim>\<open>session.ws_connect\<close>: a socket, one of the three exceptions
  \<^verbatim>\<open>connect\<close> catches, or any other exception, which \<^verbatim>\<open>connect\<close> lets through.
\<close>

datatype ws_connect_result =
    Connected websocket
  | WSServerHandshakeError
  | InvalidURL
  | gaierror
  | Raised error

text \<open>\<^verbatim>\<open>Node.connect\<close>, given what \<^verbatim>\<open>ws_connect\<close> does.\<close>

definition connect :: "ws_connect_result \<Rightarrow> node \<Rightarrow> error + node" where
  "connect r self =
     (case r of
        Connected ws \<Rightarrow>
          (let self1 = self\<lparr> websocket := Some ws, task := Some ListenTask, available := Some True \<rparr> in
           case send self1 of Inl e \<Rightarrow> Inl e | Inr u \<Rightarrow> Inr self1)
      | WSServerHandshakeError \<Rightarrow>
          Inl (NodeConnectionFailure
            (''The password for node '' @ apos @ identifier self @ apos @ '' is invalid.''))
      | InvalidURL \<Rightarrow>
          Inl (NodeConnectionFailure
            (''The URI for node '' @ apos @ identifier self @ apos @ '' is invalid.''))
      | gaierror \<Rightarrow>
          Inl (NodeConnectionFailure
            (''The node '' @ apos @ identifier self @ apos @ '' failed to connect.''))
      | Raised e \<Rightarrow> Inl e)"

text \<open>
  \<^verbatim>\<open>Node._handle_payload\<close>. The built-in \<^verbatim>\<open>int\<close> is the parameter \<open>py_int\<close>. A
  registered player is an object without \<^verbatim>\<open>__bool__\<close> or \<^verbatim>\<open>__len__\<close>, hence true.
  Modelled from the spec: \<^verbatim>\<open>NodeStats\<close> (\<^verbatim>\<open>utils.py\<close>, not under \<^verbatim>\<open>src/\<close>) is the
  snapshot that a \<^verbatim>\<open>stats\<close> frame replaces wholesale; the snapshot is represented by
  the frame it is built from.
\<close>

definition handle_payload ::
  "(json \<Rightarrow> error + int) \<Rightarrow> node \<Rightarrow> json \<Rightarrow> error + (node \<times> call list)" where
  "handle_payload py_int self data =
     (case dict_get data ''op'' of
        Inl e \<Rightarrow> Inl e
      | Inr op \<Rightarrow>
          if \<not> truthy op then Inr (self, [])
          else if op = JStr ''stats'' then Inr (self\<lparr> stats := Some data \<rparr>, [])
          else
            (case getitem data ''guildId'' of
               Inl e \<Rightarrow> Inl e
             | Inr g \<Rightarrow>
                 (case py_int g of
                    Inl e \<Rightarrow> Inl e
                  | Inr guild_id \<Rightarrow>
                      (case map_of (players self) guild_id of
                         None \<Rightarrow> Inr (self, [])
                       | Some p \<Rightarrow>
                           if op = JStr ''event'' then Inr (self, [dispatch_event p data])
                           else if op = JStr ''playerUpdate'' then Inr (self, [update_state p data])
                           else Inr (self, [])))))"

text \<open>
  A conversion that agrees with \<^verbatim>\<open>int\<close> on JSON integers and on strings of ASCII
  decimal digits, for evaluating \<open>handle_payload\<close> on concrete frames.
\<close>

definition digit_value :: "char \<Rightarrow> int option" where
  "digit_value c = map_of (zip ''0123456789'' [0, 1, 2, 3, 4, 5, 6, 7, 8, 9]) c"

fun digits_value :: "int \<Rightarrow> string \<Rightarrow> int option" where
  "digits_value acc [] = Some acc"
| "digits_value acc (c # cs) =
     (case digit_value c of None \<Rightarrow> None | Some d \<Rightarrow> digits_value (10 * acc + d) cs)"

fun int_of_digits :: "json \<Rightarrow> error + int" where
  "int_of_digits (JNum n) = Inr n"
| "int_of_digits (JStr []) = Inl (ValueError [])"
| "int_of_digits (JStr (c # cs)) =
     (case digits_value 0 (c # cs) of None \<Rightarrow> Inl (ValueError []) | Some n \<Rightarrow> Inr n)"
| "int_of_digits _ = Inl TypeError"

section \<open>The node pool (\<^verbatim>\<open>pool.py\<close>, class \<^verbatim>\<open>NodePool\<close>)\<close>

text \<open>
  The class attribute \<^verbatim>\<open>NodePool._nodes\<close>: a dictionary from identifier to node, in
  insertion order.
\<close>

type_synonym registry = "(string \<times> node) list"

text \<open>The dictionary comprehension at the head of \<^verbatim>\<open>get_node\<close>.\<close>

definition available_nodes :: "registry \<Rightarrow> registry" where
  "available_nodes nodes = filter (\<lambda>kv. truthy_flag (available (snd kv))) nodes"

text \<open>
  \<^verbatim>\<open>NodePool.get_node(identifier=None)\<close>. \<^verbatim>\<open>sorted\<close> is stable, as \<open>sort_key\<close> is;
  the result \<open>Inr None\<close> is the \<^verbatim>\<open>None\<close> that \<^verbatim>\<open>dict.get\<close> returns.
\<close>

definition get_node :: "registry \<Rightarrow> string option \<Rightarrow> error + node option" where
  "get_node nodes identifier_arg =
     (if available_nodes nodes = [] then Inl (NoNodesAvailable ''There are no nodes available.'')
      else
        (case identifier_arg of
           None \<Rightarrow>
             (case sort_key player_count (map snd (available_nodes nodes)) of
                [] \<Rightarrow> Inl IndexError
              | n # ns \<Rightarrow> Inr (Some n))
         | Some i \<Rightarrow> Inr (map_of (available_nodes nodes) i)))"

text \<open>
  \<^verbatim>\<open>NodePool.create_node\<close>, given what \<^verbatim>\<open>ws_connect\<close> does: the result and the
  registry afterwards.
\<close>

definition create_node ::
  "ws_connect_result \<Rightarrow> registry \<Rightarrow> string \<Rightarrow> int \<Rightarrow> string \<Rightarrow> string \<Rightarrow> bool \<Rightarrow>
   string option \<Rightarrow> string option \<Rightarrow> (error + node) \<times> registry" where
  "create_node r nodes host_arg port_arg password_arg identifier_arg secure_arg
     spotify_client_id_arg spotify_client_secret_arg =
     (if identifier_arg \<in> set (map fst nodes) then
        (Inl (NodeCreationError
           (''A node with identifier '' @ apos @ identifier_arg @ apos @ '' already exists.'')),
         nodes)
      else
        (case connect r (Node_init PoolClass host_arg port_arg password_arg identifier_arg
                 secure_arg spotify_client_id_arg spotify_client_secret_arg) of
           Inl e \<Rightarrow> (Inl e, nodes)
         | Inr n \<Rightarrow> (Inr n, AList.update (identifier n) n nodes)))"

text \<open>
  \<^verbatim>\<open>del self._pool.nodes[self._identifier]\<close>. \<^verbatim>\<open>nodes\<close> is a property of
  \<^verbatim>\<open>NodePool\<close>. Read on an instance it returns the dictionary \<^verbatim>\<open>_nodes\<close>, and
  \<^verbatim>\<open>del\<close> removes the key or raises \<^verbatim>\<open>KeyError\<close>. Read on the class it is the
  property object itself, which does not support item deletion: \<^verbatim>\<open>TypeError\<close>.
\<close>

definition del_pool_nodes :: "pool_ref \<Rightarrow> string \<Rightarrow> registry \<Rightarrow> error + registry" where
  "del_pool_nodes p k nodes =
     (case p of
        PoolClass \<Rightarrow> Inl TypeError
      | PoolInstance \<Rightarrow>
          (case map_of nodes k of None \<Rightarrow> Inl KeyError | Some n \<Rightarrow> Inr (AList.delete k nodes)))"

text \<open>
  \<^verbatim>\<open>Node.disconnect\<close>: the outcome, the node and the registry afterwards, and the
  calls made on the players, the socket and the task. Each \<^verbatim>\<open>player.destroy()\<close> is
  taken to return.
\<close>

definition disconnect :: "node \<Rightarrow> registry \<Rightarrow> (error + unit) \<times> node \<times> registry \<times> call list" where
  "disconnect self nodes =
     (let calls = map (\<lambda>kv. destroy (snd kv)) (players self) in
      case websocket self of
        None \<Rightarrow> (Inl AttributeError, self, nodes, calls)
      | Some ws \<Rightarrow>
          (case del_pool_nodes (pool self) (identifier self) nodes of
             Inl e \<Rightarrow> (Inl e, self, nodes, calls @ [ws_close ws])
           | Inr nodes' \<Rightarrow>
               (let self' = self\<lparr> available_attr := Some False \<rparr> in
                case task self' of
                  None \<Rightarrow> (Inl AttributeError, self', nodes', calls @ [ws_close ws])
                | Some t \<Rightarrow> (Inr (), self', nodes', calls @ [ws_close ws, task_cancel t]))))"

section \<open>Track resolution (\<^verbatim>\<open>pool.py\<close>, \<^verbatim>\<open>Node.get_tracks\<close>)\<close>

subsection \<open>The three patterns\<close>

text \<open>
  The patterns are matched by hand-written matchers that consume a prefix of the string
  and return the rest. \<open>literal\<close> matches a fixed text, \<open>any_char\<close> is the pattern
  \<^verbatim>\<open>.\<close> (any character but a newline), \<open>scheme\<close> is \<^verbatim>\<open>https?://\<close>, and \<open>many1\<close> is
  a greedy \<^verbatim>\<open>[...]+\<close>: the longest run of characters of the class, which must not be
  empty. In each pattern below the text after a greedy run starts with a character
  outside the class, so giving characters back never helps and the longest run is the
  only candidate.
\<close>

fun literal :: "string \<Rightarrow> string \<Rightarrow> string option" where
  "literal [] s = Some s"
| "literal (p # ps) [] = None"
| "literal (p # ps) (c # cs) = (if p = c then literal ps cs else None)"

fun any_char :: "string \<Rightarrow> string option" where
  "any_char [] = None"
| "any_char (c # cs) = (if c = CHR 0x0A then None else Some cs)"

definition scheme :: "string \<Rightarrow> string option" where
  "scheme s =
     (case literal ''http'' s of
        None \<Rightarrow> None
      | Some r \<Rightarrow> (case literal ''s://'' r of Some t \<Rightarrow> Some t | None \<Rightarrow> literal ''://'' r))"

definition many1 :: "(char \<Rightarrow> bool) \<Rightarrow> string \<Rightarrow> (string \<times> string) option" where
  "many1 P s = (if takeWhile P s = [] then None else Some (takeWhile P s, dropWhile P s))"

definition digit :: "char \<Rightarrow> bool" where
  "digit c = (c \<in> set ''0123456789'')"

definition alnum :: "char \<Rightarrow> bool" where
  "alnum c =
     (c \<in> set ''abcdefghijklmnopqrstuvwxyz'' \<or> c \<in> set ''ABCDEFGHIJKLMNOPQRSTUVWXYZ'' \<or> digit c)"

definition file_char :: "char \<Rightarrow> bool" where
  "file_char c = (alnum c \<or> c = CHR ''_'' \<or> c = CHR ''.'')"

text \<open>
  \<^verbatim>\<open>URL_REGEX.search(query)\<close> for \<^verbatim>\<open>https?://(?:www\.)?.+\<close>: at some position the
  scheme, followed by at least one character that is not a newline (the optional
  \<^verbatim>\<open>www.\<close> can always be left to \<^verbatim>\<open>.+\<close>).
\<close>

definition URL_REGEX_at :: "string \<Rightarrow> bool" where
  "URL_REGEX_at s = (case scheme s of None \<Rightarrow> False | Some r \<Rightarrow> any_char r \<noteq> None)"

fun URL_REGEX_search :: "string \<Rightarrow> bool" where
  "URL_REGEX_search [] = False"
| "URL_REGEX_search (c # cs) = (URL_REGEX_at (c # cs) \<or> URL_REGEX_search cs)"

text \<open>
  \<^verbatim>\<open>SPOTIFY_URL_REGEX.match(query)\<close> for
  \<^verbatim>\<open>https?://open.spotify.com/(?P<type>album|artist|playlist|track)/(?P<id>[a-zA-Z0-9]+)\<close>,
  anchored at the start of the string only; the dots are unescaped. The result is
  the pair of the groups \<^verbatim>\<open>type\<close> and \<^verbatim>\<open>id\<close>. The alternatives are tried in order.
\<close>

fun spotify_type_id :: "string list \<Rightarrow> string \<Rightarrow> (string \<times> string) option" where
  "spotify_type_id [] s = None"
| "spotify_type_id (t # ts) s =
     (case literal t s \<bind> literal ''/'' \<bind> many1 alnum of
        Some (i, rest) \<Rightarrow> Some (t, i)
      | None \<Rightarrow> spotify_type_id ts s)"

definition SPOTIFY_URL_REGEX_match :: "string \<Rightarrow> (string \<times> string) option" where
  "SPOTIFY_URL_REGEX_match s =
     scheme s \<bind> literal ''open'' \<bind> any_char \<bind> literal ''spotify'' \<bind> any_char
       \<bind> literal ''com/'' \<bind> spotify_type_id [''album'', ''artist'', ''playlist'', ''track'']"

text \<open>
  \<^verbatim>\<open>DISCORD_MP3_URL_REGEX.match(query)\<close> for
  \<^verbatim>\<open>https?://cdn.discordapp.com/attachments/(?P<channel_id>[0-9]+)/(?P<message_id>[0-9]+)/(?P<file>[a-zA-Z0-9_.]+)+\<close>,
  anchored at the start only. The result is the triple of the groups. The repeated
  group \<^verbatim>\<open>file\<close> takes the whole run of file characters in its first and only round.
\<close>

definition DISCORD_MP3_URL_REGEX_match :: "string \<Rightarrow> (string \<times> string \<times> string) option" where
  "DISCORD_MP3_URL_REGEX_match s =
     scheme s \<bind> literal ''cdn'' \<bind> any_char \<bind> literal ''discordapp'' \<bind> any_char
       \<bind> literal ''com/attachments/'' \<bind> many1 digit \<bind>
     (\<lambda>(channel_id, r1). literal ''/'' r1 \<bind> many1 digit \<bind>
     (\<lambda>(message_id, r2). literal ''/'' r2 \<bind> many1 file_char \<bind>
     (\<lambda>(file, r3). Some (channel_id, message_id, file))))"

subsection \<open>Tracks, playlists and catalog results\<close>

text \<open>
  Modelled from the spec: \<^verbatim>\<open>Track\<close> and \<^verbatim>\<open>Playlist\<close> (\<^verbatim>\<open>objects.py\<close>, not under
  \<^verbatim>\<open>src/\<close>) are immutable value objects; each is represented by the keyword arguments
  its constructor is given, \<open>None\<close> for an argument the call leaves out. A playlist
  holds an ordered sequence of tracks, one per entry of the track list it is built
  from: \<open>track_count\<close> is the number of those entries, of a backend track array or of
  a list of tracks already built.
\<close>

type_synonym ctx = nat

datatype track =
  Track (track_id: json) (info: json) (track_ctx: "ctx option") (track_spotify: "bool option")
    (track_search_type: "string option")

datatype track_seq = RawTracks json | BuiltTracks "track list"

datatype playlist =
  Playlist (playlist_info: json) (tracks: track_seq) (playlist_ctx: "ctx option")
    (playlist_spotify: "bool option") (playlist_search_type: "string option")
    (thumbnail: "json option") (uri: "json option")

fun track_count :: "playlist \<Rightarrow> nat option" where
  "track_count (Playlist pinfo (RawTracks (JArr ts)) c sp st th u) = Some (length ts)"
| "track_count (Playlist pinfo (RawTracks j) c sp st th u) = None"
| "track_count (Playlist pinfo (BuiltTracks ts) c sp st th u) = Some (length ts)"

text \<open>
  What the catalog client's \<^verbatim>\<open>search\<close> returns (\<^verbatim>\<open>spotify/client.py\<close>, not under
  \<^verbatim>\<open>src/\<close>): a \<^verbatim>\<open>spotify.Track\<close>, or a collection (album, playlist or artist, as
  \<^verbatim>\<open>spotify/artist.py\<close>) with the attributes \<^verbatim>\<open>name\<close>, \<^verbatim>\<open>tracks\<close>, \<^verbatim>\<open>image\<close> and
  \<^verbatim>\<open>uri\<close>. The attributes of a catalog track are, in order, \<^verbatim>\<open>id\<close>, \<^verbatim>\<open>artists\<close>,
  \<^verbatim>\<open>length\<close>, \<^verbatim>\<open>name\<close>, \<^verbatim>\<open>uri\<close> and \<^verbatim>\<open>image\<close>.
\<close>

datatype spotify_track = SpotifyTrackObject json json json json json json

datatype spotify_results =
    SpotifyTrack spotify_track
  | SpotifyCollection json "spotify_track list" json json

text \<open>What \<^verbatim>\<open>get_tracks\<close> returns: a list of tracks, a playlist, or \<^verbatim>\<open>None\<close>.\<close>

datatype resolution = TrackList "track list" | PlaylistResult playlist | NoResult

subsection \<open>\<^verbatim>\<open>get_tracks\<close>\<close>

text \<open>The \<^verbatim>\<open>Track(...)\<close> expression of the catalog branch, written twice in the source.\<close>

fun spotify_Track :: "ctx option \<Rightarrow> spotify_track \<Rightarrow> track" where
  "spotify_Track c (SpotifyTrackObject tid artists len name turi img) =
     Track tid
       (JObj [(''identifier'', tid), (''isSeekable'', JBool True), (''author'', artists),
              (''length'', len), (''isStream'', JBool False), (''position'', JNum 0),
              (''sourceName'', JNull), (''title'', name), (''uri'', turi),
              (''thumbnail'', img)])
       c (Some True) None"

text \<open>
  How an f-string formats a value: a string is itself; for every other value the
  interpreter's \<^verbatim>\<open>str\<close> is the parameter \<open>py_str\<close>.
\<close>

definition format_value :: "(json \<Rightarrow> string) \<Rightarrow> json \<Rightarrow> string" where
  "format_value py_str v = (case v of JStr s \<Rightarrow> s | _ \<Rightarrow> py_str v)"

text \<open>
  The attachment branch, from the decoded response on: \<^verbatim>\<open>data["tracks"][0]\<close>,
  \<^verbatim>\<open>track.get("info")\<close> and the \<^verbatim>\<open>Track(...)\<close> expression, whose arguments are
  evaluated in the order written.
\<close>

definition attachment_tracks :: "json \<Rightarrow> string \<Rightarrow> ctx option \<Rightarrow> error + resolution" where
  "attachment_tracks data file c =
     (case getitem data ''tracks'' of
        Inl e \<Rightarrow> Inl e
      | Inr ts \<Rightarrow>
     (case getitem0 ts of
        Inl e \<Rightarrow> Inl e
      | Inr t \<Rightarrow>
     (case dict_get t ''info'' of
        Inl e \<Rightarrow> Inl e
      | Inr tinfo \<Rightarrow>
     (case getitem t ''track'' of
        Inl e \<Rightarrow> Inl e
      | Inr tid \<Rightarrow>
     (case dict_get tinfo ''identifier'' of
        Inl e \<Rightarrow> Inl e
      | Inr ident \<Rightarrow>
     (case dict_get tinfo ''length'' of
        Inl e \<Rightarrow> Inl e
      | Inr len \<Rightarrow>
     (case dict_get tinfo ''uri'' of
        Inl e \<Rightarrow> Inl e
      | Inr turi \<Rightarrow>
          Inr (TrackList
            [Track tid
               (JObj [(''identifier'', ident), (''isSeekable'', JBool True),
                      (''author'', JStr ''Unknown''), (''length'', len),
                      (''isStream'', JBool False), (''position'', JNum 0),
                      (''sourceName'', JStr ''http''), (''title'', JStr file),
                      (''uri'', turi)])
               c None None]))))))))"

text \<open>The element expression of the comprehension that builds the track list.\<close>

definition entry_Track :: "ctx option \<Rightarrow> string \<Rightarrow> json \<Rightarrow> error + track" where
  "entry_Track c search_type t =
     (case getitem t ''track'' of
        Inl e \<Rightarrow> Inl e
      | Inr tid \<Rightarrow>
          (case getitem t ''info'' of
             Inl e \<Rightarrow> Inl e
           | Inr tinfo \<Rightarrow> Inr (Track tid tinfo c None (Some search_type))))"

text \<open>The generic branch, from \<^verbatim>\<open>load_type = data.get("loadType")\<close> on.\<close>

definition load_result ::
  "(json \<Rightarrow> string) \<Rightarrow> json \<Rightarrow> ctx option \<Rightarrow> string \<Rightarrow> error + resolution" where
  "load_result py_str data c search_type =
     (case dict_get data ''loadType'' of
        Inl e \<Rightarrow> Inl e
      | Inr load_type \<Rightarrow>
          if \<not> truthy load_type then
            Inl (TrackLoadError
              ''There was an error while trying to load this track. [NO_LOADTYPE]'')
          else if load_type = JStr ''NO_MATCHES'' then
            Inl (TrackLoadError ''No matches found. [NO_MATCHES]'')
          else if load_type = JStr ''LOAD_FAILED'' then
            (case getitem data ''exception'' of
               Inl e \<Rightarrow> Inl e
             | Inr exn \<Rightarrow>
                 (case getitem exn ''message'' of
                    Inl e \<Rightarrow> Inl e
                  | Inr m \<Rightarrow>
                      (case getitem exn ''severity'' of
                         Inl e \<Rightarrow> Inl e
                       | Inr sev \<Rightarrow>
                           Inl (TrackLoadError
                             (format_value py_str m @ '' ['' @ format_value py_str sev @ '']'')))))
          else if load_type = JStr ''PLAYLIST_LOADED'' then
            (case getitem data ''playlistInfo'' of
               Inl e \<Rightarrow> Inl e
             | Inr pinfo \<Rightarrow>
                 (case getitem data ''tracks'' of
                    Inl e \<Rightarrow> Inl e
                  | Inr ts \<Rightarrow>
                      Inr (PlaylistResult
                        (Playlist pinfo (RawTracks ts) c None (Some search_type) None None))))
          else if load_type = JStr ''SEARCH_RESULT'' \<or> load_type = JStr ''TRACK_LOADED'' then
            (case getitem data ''tracks'' of
               Inl e \<Rightarrow> Inl e
             | Inr ts \<Rightarrow>
                 (case iterate ts of
                    Inl e \<Rightarrow> Inl e
                  | Inr entries \<Rightarrow>
                      (case comprehension (entry_Track c search_type) entries of
                         Inl e \<Rightarrow> Inl e
                       | Inr result \<Rightarrow> Inr (TrackList result))))
          else Inr NoResult)"

text \<open>The catalog branch, after the credentials guard.\<close>

definition catalog_tracks ::
  "(string \<Rightarrow> error + spotify_results) \<Rightarrow> node \<Rightarrow> string \<Rightarrow> ctx option \<Rightarrow> error + resolution" where
  "catalog_tracks spotify_search self query c =
     (case spotify_client self of
        None \<Rightarrow> Inl AttributeError
      | Some client \<Rightarrow>
          (case spotify_search query of
             Inl e \<Rightarrow> Inl e
           | Inr (SpotifyTrack t) \<Rightarrow> Inr (TrackList [spotify_Track c t])
           | Inr (SpotifyCollection name ts img curi) \<Rightarrow>
               Inr (PlaylistResult
                 (Playlist (JObj [(''name'', name), (''selectedTrack'', JNum 0)])
                    (BuiltTracks (map (spotify_Track c) ts)) c (Some True) None
                    (Some img) (Some curi)))))"

text \<open>
  The first statement of \<^verbatim>\<open>get_tracks\<close>: a query that holds no URL, when \<^verbatim>\<open>local\<close>
  is false, gets the search type as a prefix. Modelled from the spec: \<^verbatim>\<open>SearchType\<close>
  (\<^verbatim>\<open>enums.py\<close>, not under \<^verbatim>\<open>src/\<close>) is represented by its search-source tag, the
  text the f-string writes.
\<close>

definition prefixed :: "string \<Rightarrow> string \<Rightarrow> bool \<Rightarrow> string" where
  "prefixed query search_type local =
     (if \<not> URL_REGEX_search query \<and> \<not> local then search_type @ '':'' @ query else query)"

definition credentials_message :: string where
  "credentials_message =
     ''You did not provide proper Spotify client authorization credentials. '' @
     ''If you would like to use the Spotify searching feature, '' @
     ''please obtain Spotify API credentials here: https://developer.spotify.com/''"

text \<open>
  \<^verbatim>\<open>Node.get_tracks(query, *, ctx=None, search_type=..., local=False)\<close>. The node's
  answer to the load request and the catalog's answer are functions of the query:
  \<open>loadtracks\<close> and \<open>spotify_search\<close>.
\<close>

definition get_tracks ::
  "(json \<Rightarrow> string) \<Rightarrow> (string \<Rightarrow> json) \<Rightarrow> (string \<Rightarrow> error + spotify_results) \<Rightarrow>
   node \<Rightarrow> string \<Rightarrow> ctx option \<Rightarrow> string \<Rightarrow> bool \<Rightarrow> error + resolution" where
  "get_tracks py_str loadtracks spotify_search self query_arg c search_type local =
     (let query = prefixed query_arg search_type local in
      if SPOTIFY_URL_REGEX_match query \<noteq> None then
        (if \<not> truthy_str (spotify_client_id self) \<and> \<not> truthy_str (spotify_client_secret self)
         then Inl (InvalidSpotifyClientAuthorization credentials_message)
         else catalog_tracks spotify_search self query c)
      else
        (case DISCORD_MP3_URL_REGEX_match query of
           Some (channel_id, message_id, file) \<Rightarrow> attachment_tracks (loadtracks query) file c
         | None \<Rightarrow> load_result py_str (loadtracks query) c search_type))"

section \<open>Well-formed track entries and example data\<close>

text \<open>
  An entry of the backend's track array as the load endpoint documents it: an object
  with the keys \<^verbatim>\<open>track\<close> and \<^verbatim>\<open>info\<close>.
\<close>

fun well_formed_entry :: "json \<Rightarrow> bool" where
  "well_formed_entry (JObj tkvs) = (map_of tkvs ''track'' \<noteq> None \<and> map_of tkvs ''info'' \<noteq> None)"
| "well_formed_entry _ = False"

text \<open>
  A connected node with a given identifier, availability flag and player table; a
  registry of four such nodes; an event frame for a guild; a load response with two
  tracks.
\<close>

definition example_node :: "string \<Rightarrow> bool option \<Rightarrow> (int \<times> player) list \<Rightarrow> node" where
  "example_node i a ps =
     (Node_init PoolClass ''localhost'' 2333 ''youshallnotpass'' i False None None)
       \<lparr> websocket := Some (WebSocket 0), task := Some ListenTask, available := a, players := ps \<rparr>"

definition example_registry :: registry where
  "example_registry =
     [(''A'', example_node ''A'' (Some False) []),
      (''B'', example_node ''B'' (Some True) [(1, Player 1), (2, Player 2)]),
      (''C'', example_node ''C'' (Some True) [(3, Player 3)]),
      (''D'', example_node ''D'' (Some True) [(4, Player 4)])]"

definition example_frame :: "string \<Rightarrow> json" where
  "example_frame guild =
     JObj [(''op'', JStr ''event''), (''type'', JStr ''TrackEndEvent''), (''guildId'', JStr guild),
           (''reason'', JStr ''FINISHED'')]"

definition example_response :: "string \<Rightarrow> json" where
  "example_response load_type =
     JObj [(''loadType'', JStr load_type),
           (''playlistInfo'', JObj [(''name'', JStr ''Mix''), (''selectedTrack'', JNum 0)]),
           (''tracks'',
              JArr [JObj [(''track'', JStr ''QAAA''), (''info'', JObj [(''title'', JStr ''One'')])],
                    JObj [(''track'', JStr ''QAAB''), (''info'', JObj [(''title'', JStr ''Two'')])]]),
           (''exception'',
              JObj [(''message'', JStr ''Video unavailable''), (''severity'', JStr ''COMMON'')])]"

section \<open>Properties of the filters\<close>

lemma ChannelMix_init_total:
  "ChannelMix_init a b c d =
     Inr (ChannelMix (kwarg 1 a) (kwarg 0 c) (kwarg 0 d) (kwarg 1 b)
       [(''channelMix'',
          [(''leftToLeft'', kwarg 1 a), (''leftToRight'', kwarg 0 c),
           (''rightToLeft'', kwarg 0 d), (''rightToRight'', kwarg 1 b)])])"
  by (simp add: ChannelMix_init_def Let_def)

text \<open>
  Claim C7 says that a channel-mix ratio outside \<open>[0, 1]\<close> is refused with
  \<^verbatim>\<open>FilterInvalidArgument\<close>. The guard \<^verbatim>\<open>0 > x > 1\<close> holds of no number, so the
  constructor accepts every argument: with \<^verbatim>\<open>left_to_left=2\<close> (and with
  \<^verbatim>\<open>left_to_left=-1\<close>) it returns a filter whose payload carries the
  out-of-range ratio.
\<close>

theorem ChannelMix_accepts_out_of_range:
  "ChannelMix_init (Some 2) None None None =
     Inr (ChannelMix 2 0 0 1
       [(''channelMix'',
          [(''leftToLeft'', 2), (''leftToRight'', 0), (''rightToLeft'', 0), (''rightToRight'', 1)])])
   \<and> ChannelMix_init (Some (- 1)) None None None =
     Inr (ChannelMix (- 1) 0 0 1
       [(''channelMix'',
          [(''leftToLeft'', - 1), (''leftToRight'', 0), (''rightToLeft'', 0), (''rightToRight'', 1)])])"
  by (simp add: ChannelMix_init_def Let_def)

text \<open>
  Claim C8: \<^verbatim>\<open>Timescale(speed=-1)\<close>, \<^verbatim>\<open>Tremolo(depth=1.5)\<close> and
  \<^verbatim>\<open>Vibrato(frequency=15)\<close> each raise \<^verbatim>\<open>FilterInvalidArgument\<close>;
  \<^verbatim>\<open>Timescale(speed=1, pitch=1, rate=1)\<close> succeeds and its payload is
  \<^verbatim>\<open>{"timescale": {"speed": 1, "pitch": 1, "rate": 1}}\<close>.
\<close>

theorem filter_construction_examples:
  "Timescale_init (Some (- 1)) None None =
     Inl (FilterInvalidArgument ''Timescale speed must be more than 0.'')
   \<and> Tremolo_init None (Some 1.5) =
     Inl (FilterInvalidArgument ''Tremolo depth must be between 0 and 1.'')
   \<and> Vibrato_init (Some 15) None =
     Inl (FilterInvalidArgument ''Vibrato frequency must be between 0 and 14.'')
   \<and> Timescale_init (Some 1) (Some 1) (Some 1) =
     Inr (Timescale 1 1 1 [(''timescale'', [(''speed'', 1), (''pitch'', 1), (''rate'', 1)])])
   \<and> map_sum id payload_of (Timescale_init (Some 1) (Some 1) (Some 1)) =
     Inr [(''timescale'', [(''speed'', 1), (''pitch'', 1), (''rate'', 1)])]"
  by (simp add: Timescale_init_def Tremolo_init_def Vibrato_init_def Let_def)

section \<open>Properties of the node pool\<close>

text \<open>
  The head of a stably sorted list: a member of the list, least under the key, and the
  first of the members with that key.
\<close>

lemma hd_sort_key:
  assumes "xs \<noteq> []"
  shows "hd (sort_key f xs) \<in> set xs"
    and "\<forall>y \<in> set xs. f (hd (sort_key f xs)) \<le> f y"
    and "hd (sort_key f xs) = hd (filter (\<lambda>y. f y = f (hd (sort_key f xs))) xs)"
proof -
  obtain x s where s: "sort_key f xs = x # s"
    using assms by (cases "sort_key f xs") (auto dest: arg_cong [where f = length])
  have set_eq: "set (sort_key f xs) = set xs" by simp
  show "hd (sort_key f xs) \<in> set xs"
    using s set_eq by (metis list.sel(1) list.set_intros(1))
  have srt: "sorted (map f (x # s))"
    using sorted_sort_key [of f xs] s by simp
  show "\<forall>y \<in> set xs. f (hd (sort_key f xs)) \<le> f y"
    using srt s set_eq by (metis (no_types, lifting) imageI list.sel(1) list.set_map list.simps(9) order_refl set_ConsD sorted_simps(2))
  have "filter (\<lambda>y. f y = f x) xs = filter (\<lambda>y. f y = f x) (sort_key f xs)"
    by (rule sort_key_stable [symmetric])
  then show "hd (sort_key f xs) = hd (filter (\<lambda>y. f y = f (hd (sort_key f xs))) xs)"
    using s by simp
qed

lemma truthy_flag_iff: "truthy_flag a \<longleftrightarrow> a = Some True"
  by (cases a) auto

lemma available_nodes_empty_iff:
  "available_nodes nodes = [] \<longleftrightarrow> (\<forall>kv \<in> set nodes. available (snd kv) \<noteq> Some True)"
  by (auto simp: available_nodes_def filter_empty_conv truthy_flag_iff)

lemma set_available_nodes:
  "set (available_nodes nodes) = {kv \<in> set nodes. available (snd kv) = Some True}"
  by (auto simp: available_nodes_def truthy_flag_iff)

lemma map_snd_available_nodes:
  "map snd (available_nodes nodes) = filter (\<lambda>m. available m = Some True) (map snd nodes)"
  by (simp add: available_nodes_def filter_map comp_def truthy_flag_iff)

lemma get_node_None_eq:
  assumes "available_nodes nodes \<noteq> []"
  shows "get_node nodes None = Inr (Some (hd (sort_key player_count (map snd (available_nodes nodes)))))"
proof -
  have "sort_key player_count (map snd (available_nodes nodes)) \<noteq> []"
    using assms by (auto dest: arg_cong [where f = length])
  then show ?thesis
    using assms by (auto simp: get_node_def split: list.splits)
qed

text \<open>
  Claim C1. For every registry, \<^verbatim>\<open>get_node()\<close> without an identifier raises
  \<^verbatim>\<open>NoNodesAvailable\<close> exactly when no registered node has its available flag
  set, and raises nothing else. When some node is available it returns a registered
  node whose flag is set and whose player count is least among the available nodes;
  among the available nodes of that least count it is the first in registry order, so
  the choice is a function of the registry.
\<close>

theorem get_node_least_loaded:
  "((\<exists>msg. get_node nodes None = Inl (NoNodesAvailable msg))
      \<longleftrightarrow> (\<forall>kv \<in> set nodes. available (snd kv) \<noteq> Some True))
   \<and> (\<forall>e. get_node nodes None = Inl e \<longrightarrow> e = NoNodesAvailable ''There are no nodes available.'')
   \<and> ((\<exists>kv \<in> set nodes. available (snd kv) = Some True) \<longrightarrow>
        (\<exists>n. get_node nodes None = Inr (Some n)
           \<and> n \<in> snd ` set nodes
           \<and> available n = Some True
           \<and> (\<forall>kv \<in> set nodes. available (snd kv) = Some True \<longrightarrow> player_count n \<le> player_count (snd kv))
           \<and> n = hd (filter (\<lambda>m. available m = Some True \<and> player_count m = player_count n)
                       (map snd nodes))))"
proof (cases "available_nodes nodes = []")
  case True
  then have "get_node nodes None = Inl (NoNodesAvailable ''There are no nodes available.'')"
    by (simp add: get_node_def)
  with True show ?thesis
    by (auto simp: available_nodes_empty_iff)
next
  case False
  let ?av = "map snd (available_nodes nodes)"
  let ?n = "hd (sort_key player_count ?av)"
  have res: "get_node nodes None = Inr (Some ?n)"
    using False by (rule get_node_None_eq)
  have ne: "?av \<noteq> []" using False by simp
  have mem: "?n \<in> set ?av" using hd_sort_key(1) [OF ne] .
  have least: "\<forall>y \<in> set ?av. player_count ?n \<le> player_count y" using hd_sort_key(2) [OF ne] .
  have first: "?n = hd (filter (\<lambda>y. player_count y = player_count ?n) ?av)"
    using hd_sort_key(3) [OF ne] .
  have set_av: "set ?av = {m \<in> snd ` set nodes. available m = Some True}"
    by (auto simp: set_available_nodes)
  have 1: "?n \<in> snd ` set nodes" and 2: "available ?n = Some True"
    using mem set_av by auto
  have 3: "\<forall>kv \<in> set nodes. available (snd kv) = Some True \<longrightarrow> player_count ?n \<le> player_count (snd kv)"
  proof (intro ballI impI)
    fix kv assume "kv \<in> set nodes" and "available (snd kv) = Some True"
    then have "kv \<in> set (available_nodes nodes)" by (simp add: set_available_nodes)
    then have "snd kv \<in> set ?av" by simp
    with least show "player_count ?n \<le> player_count (snd kv)" by blast
  qed
  have 4: "?n = hd (filter (\<lambda>m. available m = Some True \<and> player_count m = player_count ?n) (map snd nodes))"
    using first by (simp add: map_snd_available_nodes conj_commute)
  have ex: "\<exists>kv \<in> set nodes. available (snd kv) = Some True"
    using False by (simp add: available_nodes_empty_iff)
  show ?thesis
    using res 1 2 3 4 ex by auto
qed

theorem get_node_least_loaded_witness:
  "get_node example_registry None = Inr (Some (example_node ''C'' (Some True) [(3, Player 3)]))
   \<and> get_node [(''A'', example_node ''A'' (Some False) [])] None =
       Inl (NoNodesAvailable ''There are no nodes available.'')"
proof -
  have ex: "\<exists>kv \<in> set example_registry. available (snd kv) = Some True"
    by (simp add: example_registry_def example_node_def)
  then obtain n where res: "get_node example_registry None = Inr (Some n)"
    and mem: "n \<in> snd ` set example_registry"
    and av: "available n = Some True"
    and least: "\<forall>kv \<in> set example_registry.
        available (snd kv) = Some True \<longrightarrow> player_count n \<le> player_count (snd kv)"
    and first: "n = hd (filter (\<lambda>m. available m = Some True \<and> player_count m = player_count n)
        (map snd example_registry))"
    using get_node_least_loaded [of example_registry] by blast
  have "player_count n \<le> 1"
    using least by (simp add: example_registry_def example_node_def player_count_def)
  moreover have "player_count n \<noteq> 0"
    using mem av by (auto simp: example_registry_def example_node_def player_count_def)
  ultimately have "player_count n = 1" by simp
  with first have "n = example_node ''C'' (Some True) [(3, Player 3)]"
    by (simp add: example_registry_def example_node_def player_count_def)
  with res have "get_node example_registry None = Inr (Some (example_node ''C'' (Some True) [(3, Player 3)]))"
    by simp
  moreover have "get_node [(''A'', example_node ''A'' (Some False) [])] None =
       Inl (NoNodesAvailable ''There are no nodes available.'')"
    using get_node_least_loaded [of "[(''A'', example_node ''A'' (Some False) [])]"]
    by (auto simp add: example_node_def Node_init_def)
  ultimately show ?thesis by simp
qed

text \<open>
  Claim C10. \<^verbatim>\<open>get_node(identifier=x)\<close> raises \<^verbatim>\<open>NoNodesAvailable\<close> whenever no
  registered node is available, whatever \<open>x\<close> is; when some node is available and no
  available node is registered under \<open>x\<close> (also when \<open>x\<close> names a node whose flag is
  not set) it returns \<^verbatim>\<open>None\<close>.
\<close>

theorem get_node_by_identifier:
  "((\<forall>kv \<in> set nodes. available (snd kv) \<noteq> Some True) \<longrightarrow>
      get_node nodes (Some x) = Inl (NoNodesAvailable ''There are no nodes available.''))
   \<and> ((\<exists>kv \<in> set nodes. available (snd kv) = Some True)
        \<and> (\<forall>kv \<in> set nodes. fst kv = x \<longrightarrow> available (snd kv) \<noteq> Some True) \<longrightarrow>
      get_node nodes (Some x) = Inr None)"
proof -
  have "map_of (available_nodes nodes) x = None"
    if "\<forall>kv \<in> set nodes. fst kv = x \<longrightarrow> available (snd kv) \<noteq> Some True"
    using that by (force simp: map_of_eq_None_iff set_available_nodes)
  then show ?thesis
    by (auto simp: get_node_def available_nodes_empty_iff)
qed

theorem get_node_by_identifier_witness:
  "get_node [(''A'', example_node ''A'' (Some False) [])] (Some ''A'') =
       Inl (NoNodesAvailable ''There are no nodes available.'')
   \<and> get_node example_registry (Some ''A'') = Inr None
   \<and> get_node example_registry (Some ''Z'') = Inr None"
proof -
  have "get_node [(''A'', example_node ''A'' (Some False) [])] (Some ''A'') =
       Inl (NoNodesAvailable ''There are no nodes available.'')"
    using get_node_by_identifier [of "[(''A'', example_node ''A'' (Some False) [])]" "''A''"]
    by (simp add: example_node_def Node_init_def)
  moreover have "get_node example_registry (Some ''A'') = Inr None"
    using get_node_by_identifier [of example_registry "''A''"]
    by (simp add: example_registry_def example_node_def Node_init_def)
  moreover have "get_node example_registry (Some ''Z'') = Inr None"
    using get_node_by_identifier [of example_registry "''Z''"]
    by (simp add: example_registry_def example_node_def Node_init_def)
  ultimately show ?thesis by simp
qed

lemma update_fresh: "k \<notin> fst ` set al \<Longrightarrow> AList.update k v al = al @ [(k, v)]"
  by (induction al) auto

lemma connect_Connected:
  "connect (Connected ws) n = Inr (n\<lparr> websocket := Some ws, task := Some ListenTask, available := Some True \<rparr>)"
  by (simp add: connect_def send_def Let_def)

lemma connect_failure:
  "r \<in> {WSServerHandshakeError, InvalidURL, gaierror} \<Longrightarrow>
     \<exists>msg. connect r n = Inl (NodeConnectionFailure msg)"
  by (auto simp: connect_def)

lemma connect_Raised: "connect (Raised e) n = Inl e"
  by (simp add: connect_def)

text \<open>
  Claim C2. \<^verbatim>\<open>create_node\<close> with an identifier that is already a key of the
  registry raises \<^verbatim>\<open>NodeCreationError\<close> and leaves the registry as it is. With a
  fresh identifier, a connection that fails in one of the three ways \<^verbatim>\<open>connect\<close>
  catches raises \<^verbatim>\<open>NodeConnectionFailure\<close>, any other exception of the connection
  is passed on, and both leave the registry as it is; a successful connection appends
  the connected node under its identifier. The registry changes only when a node is
  returned.
\<close>

theorem create_node_registry:
  "(i \<in> fst ` set nodes \<longrightarrow>
      create_node r nodes h p pw i s cid cs =
        (Inl (NodeCreationError (''A node with identifier '' @ apos @ i @ apos @ '' already exists.'')), nodes))
   \<and> (i \<notin> fst ` set nodes \<and> r \<in> {WSServerHandshakeError, InvalidURL, gaierror} \<longrightarrow>
        (\<exists>msg. create_node r nodes h p pw i s cid cs = (Inl (NodeConnectionFailure msg), nodes)))
   \<and> (i \<notin> fst ` set nodes \<longrightarrow>
        (\<forall>e. r = Raised e \<longrightarrow> create_node r nodes h p pw i s cid cs = (Inl e, nodes)))
   \<and> (i \<notin> fst ` set nodes \<longrightarrow>
        (\<forall>ws. r = Connected ws \<longrightarrow>
          (\<exists>n. create_node r nodes h p pw i s cid cs = (Inr n, nodes @ [(i, n)])
             \<and> identifier n = i \<and> available n = Some True \<and> websocket n = Some ws)))
   \<and> (snd (create_node r nodes h p pw i s cid cs) \<noteq> nodes \<longrightarrow>
        (\<exists>n. fst (create_node r nodes h p pw i s cid cs) = Inr n))"
proof -
  have dup: "i \<in> fst ` set nodes \<longrightarrow>
      create_node r nodes h p pw i s cid cs =
        (Inl (NodeCreationError (''A node with identifier '' @ apos @ i @ apos @ '' already exists.'')), nodes)"
    by (simp add: create_node_def)
  have fail: "i \<notin> fst ` set nodes \<and> r \<in> {WSServerHandshakeError, InvalidURL, gaierror} \<longrightarrow>
        (\<exists>msg. create_node r nodes h p pw i s cid cs = (Inl (NodeConnectionFailure msg), nodes))"
  proof (intro impI, elim conjE)
    assume fresh: "i \<notin> fst ` set nodes" and nc: "r \<in> {WSServerHandshakeError, InvalidURL, gaierror}"
    obtain msg where "connect r (Node_init PoolClass h p pw i s cid cs) = Inl (NodeConnectionFailure msg)"
      using connect_failure [OF nc] by blast
    then show "\<exists>msg. create_node r nodes h p pw i s cid cs = (Inl (NodeConnectionFailure msg), nodes)"
      using fresh by (simp add: create_node_def)
  qed
  have other: "i \<notin> fst ` set nodes \<longrightarrow>
        (\<forall>e. r = Raised e \<longrightarrow> create_node r nodes h p pw i s cid cs = (Inl e, nodes))"
    by (simp add: create_node_def connect_Raised)
  have ok: "i \<notin> fst ` set nodes \<longrightarrow>
        (\<forall>ws. r = Connected ws \<longrightarrow>
          (\<exists>n. create_node r nodes h p pw i s cid cs = (Inr n, nodes @ [(i, n)])
             \<and> identifier n = i \<and> available n = Some True \<and> websocket n = Some ws))"
    by (auto simp: create_node_def connect_Connected Node_init_def update_fresh)
  have only: "snd (create_node r nodes h p pw i s cid cs) \<noteq> nodes \<longrightarrow>
        (\<exists>n. fst (create_node r nodes h p pw i s cid cs) = Inr n)"
    by (auto simp: create_node_def split: sum.splits)
  show ?thesis
    by (rule conjI [OF dup conjI [OF fail conjI [OF other conjI [OF ok only]]]])
qed

theorem create_node_registry_witness:
  "create_node (Connected (WebSocket 1)) example_registry ''localhost'' 2333 ''youshallnotpass'' ''B''
       False None None =
     (Inl (NodeCreationError (''A node with identifier '' @ apos @ ''B'' @ apos @ '' already exists.'')),
      example_registry)
   \<and> (\<exists>msg. create_node gaierror example_registry ''localhost'' 2333 ''youshallnotpass'' ''E''
        False None None = (Inl (NodeConnectionFailure msg), example_registry))
   \<and> create_node (Raised TypeError) example_registry ''localhost'' 2333 ''youshallnotpass'' ''E''
        False None None = (Inl TypeError, example_registry)
   \<and> (\<exists>n. create_node (Connected (WebSocket 1)) example_registry ''localhost'' 2333
        ''youshallnotpass'' ''E'' False None None = (Inr n, example_registry @ [(''E'', n)])
        \<and> identifier n = ''E'' \<and> available n = Some True \<and> websocket n = Some (WebSocket 1))
   \<and> snd (create_node (Connected (WebSocket 1)) example_registry ''localhost'' 2333
        ''youshallnotpass'' ''E'' False None None) \<noteq> example_registry
   \<and> (\<exists>n. fst (create_node (Connected (WebSocket 1)) example_registry ''localhost'' 2333
        ''youshallnotpass'' ''E'' False None None) = Inr n)"
proof -
  have dup: "''B'' \<in> fst ` set example_registry"
    by (simp add: example_registry_def)
  have fresh: "''E'' \<notin> fst ` set example_registry"
    by (simp add: example_registry_def)
  have nc: "gaierror \<in> {WSServerHandshakeError, InvalidURL, gaierror}" by simp
  note dup_case = create_node_registry [of "''B''" example_registry "Connected (WebSocket 1)"
      "''localhost''" 2333 "''youshallnotpass''" False None None]
  note fail_case = create_node_registry [of "''E''" example_registry gaierror
      "''localhost''" 2333 "''youshallnotpass''" False None None]
  note other_case = create_node_registry [of "''E''" example_registry "Raised TypeError"
      "''localhost''" 2333 "''youshallnotpass''" False None None]
  note ok_case = create_node_registry [of "''E''" example_registry "Connected (WebSocket 1)"
      "''localhost''" 2333 "''youshallnotpass''" False None None]
  have 1: "create_node (Connected (WebSocket 1)) example_registry ''localhost'' 2333
      ''youshallnotpass'' ''B'' False None None =
     (Inl (NodeCreationError (''A node with identifier '' @ apos @ ''B'' @ apos @ '' already exists.'')),
      example_registry)"
    using dup_case [THEN conjunct1] dup by (rule mp)
  have 2: "\<exists>msg. create_node gaierror example_registry ''localhost'' 2333 ''youshallnotpass'' ''E''
        False None None = (Inl (NodeConnectionFailure msg), example_registry)"
    using fail_case [THEN conjunct2, THEN conjunct1] conjI [OF fresh nc] by (rule mp)
  have 3: "create_node (Raised TypeError) example_registry ''localhost'' 2333 ''youshallnotpass'' ''E''
        False None None = (Inl TypeError, example_registry)"
    using other_case [THEN conjunct2, THEN conjunct2, THEN conjunct1] fresh by simp
  have 4: "\<exists>n. create_node (Connected (WebSocket 1)) example_registry ''localhost'' 2333
        ''youshallnotpass'' ''E'' False None None = (Inr n, example_registry @ [(''E'', n)])
        \<and> identifier n = ''E'' \<and> available n = Some True \<and> websocket n = Some (WebSocket 1)"
    using ok_case [THEN conjunct2, THEN conjunct2, THEN conjunct2, THEN conjunct1] fresh by simp
  have 5: "snd (create_node (Connected (WebSocket 1)) example_registry ''localhost'' 2333
        ''youshallnotpass'' ''E'' False None None) \<noteq> example_registry"
    using 4 by auto
  have 6: "\<exists>n. fst (create_node (Connected (WebSocket 1)) example_registry ''localhost'' 2333
        ''youshallnotpass'' ''E'' False None None) = Inr n"
    using ok_case [THEN conjunct2, THEN conjunct2, THEN conjunct2, THEN conjunct2] 5 by (rule mp)
  show ?thesis
    by (rule conjI [OF 1 conjI [OF 2 conjI [OF 3 conjI [OF 4 conjI [OF 5 6]]]]])
qed

section \<open>Properties of \<^verbatim>\<open>disconnect\<close>\<close>

text \<open>
  A node that \<^verbatim>\<open>create_node\<close> built holds the class \<^verbatim>\<open>NodePool\<close> as its pool, so
  the removal raises \<^verbatim>\<open>TypeError\<close> after the socket is closed and the registry
  keeps the node. A node built by hand with an instance as its pool is removed by
  the first \<^verbatim>\<open>disconnect\<close>; the second raises \<^verbatim>\<open>KeyError\<close>.
\<close>

lemma disconnect_PoolClass:
  "pool self = PoolClass \<Longrightarrow> websocket self = Some ws \<Longrightarrow>
   disconnect self nodes = (Inl TypeError, self, nodes, map (\<lambda>kv. destroy (snd kv)) (players self) @ [ws_close ws])"
  by (simp add: disconnect_def del_pool_nodes_def)

lemma disconnect_PoolInstance_absent:
  "pool self = PoolInstance \<Longrightarrow> websocket self = Some ws \<Longrightarrow> map_of nodes (identifier self) = None \<Longrightarrow>
   disconnect self nodes = (Inl KeyError, self, nodes, map (\<lambda>kv. destroy (snd kv)) (players self) @ [ws_close ws])"
  by (simp add: disconnect_def del_pool_nodes_def)

lemma disconnect_PoolInstance_twice:
  assumes "pool self = PoolInstance" and "websocket self = Some ws" and "task self = Some t"
    and "map_of nodes (identifier self) = Some n"
  shows "\<exists>self' cs cs'. disconnect self nodes = (Inr (), self', AList.delete (identifier self) nodes, cs)
           \<and> map_of (AList.delete (identifier self) nodes) (identifier self) = None
           \<and> disconnect self' (AList.delete (identifier self) nodes) =
               (Inl KeyError, self', AList.delete (identifier self) nodes, cs')"
  using assms
  by (simp add: disconnect_def del_pool_nodes_def Let_def delete_conv)

text \<open>
  Claim C6 says that after \<^verbatim>\<open>disconnect()\<close> the pool no longer holds the node's
  identifier and that a second call is safe. On the registry that
  \<^verbatim>\<open>create_node\<close> builds from the empty one, \<^verbatim>\<open>disconnect\<close> of the node it
  returned raises \<^verbatim>\<open>TypeError\<close>, the registry is unchanged and a lookup by the
  identifier still returns the node. On a node that holds a pool instance the first
  call removes the entry and the second raises \<^verbatim>\<open>KeyError\<close>.
\<close>

theorem disconnect_registry_removal_fails:
  "(\<exists>n. create_node (Connected (WebSocket 0)) [] ''localhost'' 2333 ''youshallnotpass'' ''MAIN''
          False None None = (Inr n, [(''MAIN'', n)])
      \<and> disconnect n [(''MAIN'', n)] = (Inl TypeError, n, [(''MAIN'', n)], [ws_close (WebSocket 0)])
      \<and> get_node [(''MAIN'', n)] (Some ''MAIN'') = Inr (Some n))
   \<and> (\<exists>n n'. n = (example_node ''MAIN'' (Some True) []) \<lparr> pool := PoolInstance \<rparr>
      \<and> disconnect n [(''MAIN'', n)] =
            (Inr (), n', [], [ws_close (WebSocket 0), task_cancel ListenTask])
      \<and> disconnect n' [] = (Inl KeyError, n', [], [ws_close (WebSocket 0)]))"
  by (simp add: create_node_def connect_def send_def Node_init_def disconnect_def
      del_pool_nodes_def get_node_def available_nodes_def example_node_def)

section \<open>Properties of frame routing\<close>

text \<open>
  Claim C9. For an \<^verbatim>\<open>event\<close> frame whose \<^verbatim>\<open>guildId\<close> converts to the integer
  \<open>guild_id\<close>: when no player is registered under \<open>guild_id\<close> the frame is dropped,
  nothing is raised, the node is unchanged and no call is made; when the player \<open>p\<close> is
  registered under it, the node is unchanged and the only call made is one
  \<^verbatim>\<open>_dispatch_event\<close> of \<open>p\<close> with the frame.
\<close>

theorem event_frame_routing:
  assumes "dict_get data ''op'' = Inr (JStr ''event'')"
    and "getitem data ''guildId'' = Inr g"
    and "py_int g = Inr guild_id"
  shows "(map_of (players self) guild_id = None \<longrightarrow> handle_payload py_int self data = Inr (self, []))
       \<and> (\<forall>p. map_of (players self) guild_id = Some p \<longrightarrow>
            handle_payload py_int self data = Inr (self, [dispatch_event p data]))"
  using assms by (simp add: handle_payload_def)

theorem event_frame_routing_witness:
  "handle_payload int_of_digits (example_node ''C'' (Some True) [(3, Player 3)]) (example_frame ''3'') =
     Inr (example_node ''C'' (Some True) [(3, Player 3)], [dispatch_event (Player 3) (example_frame ''3'')])
   \<and> handle_payload int_of_digits (example_node ''C'' (Some True) [(3, Player 3)]) (example_frame ''42'') =
     Inr (example_node ''C'' (Some True) [(3, Player 3)], [])"
proof -
  have op: "dict_get (example_frame g) ''op'' = Inr (JStr ''event'')" for g
    by (simp add: example_frame_def)
  have gid: "getitem (example_frame g) ''guildId'' = Inr (JStr g)" for g
    by (simp add: example_frame_def)
  have i3: "int_of_digits (JStr ''3'') = Inr 3" and i42: "int_of_digits (JStr ''42'') = Inr 42"
    by (simp_all add: digit_value_def)
  have p3: "map_of (players (example_node ''C'' (Some True) [(3, Player 3)])) 3 = Some (Player 3)"
    and p42: "map_of (players (example_node ''C'' (Some True) [(3, Player 3)])) 42 = None"
    by (simp_all add: example_node_def)
  show ?thesis
    using event_frame_routing [where py_int = int_of_digits, OF op [of "''3''"] gid [of "''3''"] i3,
        of "example_node ''C'' (Some True) [(3, Player 3)]"]
      event_frame_routing [where py_int = int_of_digits, OF op [of "''42''"] gid [of "''42''"] i42,
        of "example_node ''C'' (Some True) [(3, Player 3)]"]
      p3 p42
    by simp
qed

section \<open>Properties of track resolution\<close>

text \<open>
  A query that matches the attachment pattern or the catalog pattern holds a URL, so
  it gets no prefix; a query that matches the attachment pattern does not match the
  catalog pattern.
\<close>

lemma literal_Some: "literal p s = Some r \<longleftrightarrow> s = p @ r"
  by (induction p s rule: literal.induct) auto

lemma scheme_Some: "scheme s = Some r \<Longrightarrow> s = ''http://'' @ r \<or> s = ''https://'' @ r"
  by (auto simp: scheme_def literal_Some split: option.splits)

lemma scheme_URL_REGEX_search:
  assumes "scheme s = Some r" and "any_char r \<noteq> None"
  shows "URL_REGEX_search s"
proof -
  obtain c cs where "s = c # cs"
    using scheme_Some [OF assms(1)] by auto
  then show ?thesis
    using assms by (simp add: URL_REGEX_at_def)
qed

lemma DISCORD_match_scheme:
  assumes "DISCORD_MP3_URL_REGEX_match s = Some g"
  shows "\<exists>r. scheme s = Some (''cdn'' @ r) \<and> r \<noteq> []"
proof -
  obtain r0 r1 r2 where "scheme s = Some r0" "literal ''cdn'' r0 = Some r1" "any_char r1 = Some r2"
    using assms unfolding DISCORD_MP3_URL_REGEX_match_def
    by (auto simp: Option.bind_eq_Some_conv)
  then show ?thesis
    by (cases r1) (auto simp: literal_Some)
qed

lemma SPOTIFY_match_scheme:
  assumes "SPOTIFY_URL_REGEX_match s = Some g"
  shows "\<exists>r. scheme s = Some (''open'' @ r) \<and> any_char r \<noteq> None"
proof -
  obtain r0 r1 r2 where "scheme s = Some r0" "literal ''open'' r0 = Some r1" "any_char r1 = Some r2"
    using assms unfolding SPOTIFY_URL_REGEX_match_def
    by (auto simp: Option.bind_eq_Some_conv)
  then show ?thesis
    by (auto simp: literal_Some)
qed

lemma DISCORD_match_not_prefixed:
  assumes "DISCORD_MP3_URL_REGEX_match query = Some g"
  shows "prefixed query search_type local = query"
proof -
  obtain r where "scheme query = Some (''cdn'' @ r)"
    using DISCORD_match_scheme [OF assms] by blast
  then have "URL_REGEX_search query"
    by (rule scheme_URL_REGEX_search) simp
  then show ?thesis by (simp add: prefixed_def)
qed

lemma DISCORD_match_not_SPOTIFY:
  assumes "DISCORD_MP3_URL_REGEX_match query = Some g"
  shows "SPOTIFY_URL_REGEX_match query = None"
proof (rule ccontr)
  assume "SPOTIFY_URL_REGEX_match query \<noteq> None"
  then obtain h where "SPOTIFY_URL_REGEX_match query = Some h" by auto
  then obtain r where "scheme query = Some (''open'' @ r)"
    using SPOTIFY_match_scheme by blast
  moreover obtain r' where "scheme query = Some (''cdn'' @ r')"
    using DISCORD_match_scheme [OF assms] by blast
  ultimately show False by simp
qed

lemma SPOTIFY_match_not_prefixed:
  assumes "SPOTIFY_URL_REGEX_match query \<noteq> None"
  shows "prefixed query search_type local = query"
proof -
  obtain h where "SPOTIFY_URL_REGEX_match query = Some h" using assms by auto
  then obtain r where "scheme query = Some (''open'' @ r)"
    using SPOTIFY_match_scheme by blast
  then have "URL_REGEX_search query"
    by (rule scheme_URL_REGEX_search) simp
  then show ?thesis by (simp add: prefixed_def)
qed

lemma get_tracks_attachment:
  assumes "DISCORD_MP3_URL_REGEX_match query = Some (channel_id, message_id, file)"
  shows "get_tracks py_str loadtracks spotify_search self query c search_type local =
           attachment_tracks (loadtracks query) file c"
  using assms DISCORD_match_not_prefixed [OF assms] DISCORD_match_not_SPOTIFY [OF assms]
  by (simp add: get_tracks_def)

lemma attachment_one_track:
  assumes "DISCORD_MP3_URL_REGEX_match query = Some (channel_id, message_id, file)"
    and "getitem (loadtracks query) ''tracks'' = Inr (JArr [t])"
    and "getitem t ''track'' = Inr tid"
    and "dict_get t ''info'' = Inr (JObj kvs)"
  shows "\<exists>tr. get_tracks py_str loadtracks spotify_search self query c search_type local =
                Inr (TrackList [tr])
             \<and> track_id tr = tid
             \<and> dict_get (info tr) ''title'' = Inr (JStr file)
             \<and> dict_get (info tr) ''sourceName'' = Inr (JStr ''http'')"
  using assms(2-4)
  by (simp add: get_tracks_attachment [OF assms(1)] attachment_tracks_def split: option.splits)

lemma attachment_no_tracks:
  assumes "DISCORD_MP3_URL_REGEX_match query = Some (channel_id, message_id, file)"
    and "getitem (loadtracks query) ''tracks'' = Inr (JArr [])"
  shows "get_tracks py_str loadtracks spotify_search self query c search_type local = Inl IndexError"
  using assms(2)
  by (simp add: get_tracks_attachment [OF assms(1)] attachment_tracks_def)

lemma attachment_song_mp3:
  "get_tracks py_str
     (\<lambda>q. JObj [(''loadType'', JStr ''TRACK_LOADED''), (''playlistInfo'', JObj []),
                (''tracks'',
                   JArr [JObj [(''track'', JStr ''QAAA''),
                               (''info'', JObj [(''identifier'', JStr q), (''length'', JNum 215000),
                                                (''title'', JStr ''Unknown title''), (''uri'', JStr q)])]])])
     spotify_search self ''https://cdn.discordapp.com/attachments/12/345/song.mp3''
     c search_type local =
   Inr (TrackList
     [Track (JStr ''QAAA'')
        (JObj [(''identifier'', JStr ''https://cdn.discordapp.com/attachments/12/345/song.mp3''),
               (''isSeekable'', JBool True), (''author'', JStr ''Unknown''),
               (''length'', JNum 215000), (''isStream'', JBool False), (''position'', JNum 0),
               (''sourceName'', JStr ''http''), (''title'', JStr ''song.mp3''),
               (''uri'', JStr ''https://cdn.discordapp.com/attachments/12/345/song.mp3'')])
        c None None])"
  by (simp add: get_tracks_def prefixed_def URL_REGEX_at_def SPOTIFY_URL_REGEX_match_def
      DISCORD_MP3_URL_REGEX_match_def scheme_def many1_def digit_def file_char_def alnum_def
      attachment_tracks_def Let_def)

text \<open>
  Claim C4 says that a query matching the attachment pattern yields one track titled
  with the file group of the URL and tagged \<^verbatim>\<open>http\<close> when the backend returns one
  track (lemmas \<open>attachment_one_track\<close> and \<open>attachment_song_mp3\<close>), and fails with \<^verbatim>\<open>TrackLoadError\<close> when
  the backend returns no tracks. On an empty track array \<^verbatim>\<open>data["tracks"][0]\<close>
  raises \<^verbatim>\<open>IndexError\<close>.
\<close>

theorem attachment_without_tracks_IndexError:
  "get_tracks py_str
     (\<lambda>q. JObj [(''loadType'', JStr ''NO_MATCHES''), (''playlistInfo'', JObj []), (''tracks'', JArr [])])
     spotify_search self ''https://cdn.discordapp.com/attachments/12/345/song.mp3''
     c search_type local = Inl IndexError"
  by (simp add: get_tracks_def prefixed_def URL_REGEX_at_def SPOTIFY_URL_REGEX_match_def
      DISCORD_MP3_URL_REGEX_match_def scheme_def many1_def digit_def file_char_def alnum_def
      attachment_tracks_def)

lemma no_credentials_refused:
  assumes "SPOTIFY_URL_REGEX_match query \<noteq> None"
    and "\<not> truthy_str (spotify_client_id self)" and "\<not> truthy_str (spotify_client_secret self)"
  shows "get_tracks py_str loadtracks spotify_search self query c search_type local =
           Inl (InvalidSpotifyClientAuthorization credentials_message)"
  using assms by (simp add: get_tracks_def SPOTIFY_match_not_prefixed [OF assms(1)])

text \<open>
  Claim C5 says that a catalog URL on a node without catalog credentials raises
  \<^verbatim>\<open>InvalidSpotifyClientAuthorization\<close>. The guard fires only when both the client
  id and the client secret are false (lemma \<open>no_credentials_refused\<close>). A node
  given a client id and no secret has no catalog client, passes the guard and raises
  \<^verbatim>\<open>AttributeError\<close> at \<^verbatim>\<open>self._spotify_client\<close>.
\<close>

theorem partial_credentials_AttributeError:
  "get_tracks py_str loadtracks spotify_search
     (Node_init PoolClass ''localhost'' 2333 ''youshallnotpass'' ''MAIN'' False (Some ''client-id'') None)
     ''https://open.spotify.com/track/abc123'' c search_type local = Inl AttributeError"
  by (simp add: get_tracks_def prefixed_def URL_REGEX_at_def SPOTIFY_URL_REGEX_match_def
      scheme_def many1_def digit_def alnum_def Node_init_def catalog_tracks_def)

lemma comprehension_all_ok:
  assumes "\<forall>x \<in> set xs. \<exists>y. f x = Inr y"
  shows "\<exists>ys. comprehension f xs = Inr ys \<and> length ys = length xs
            \<and> (\<forall>i < length xs. f (xs ! i) = Inr (ys ! i))"
  using assms
proof (induction xs)
  case Nil
  then show ?case by simp
next
  case (Cons x xs)
  then obtain y where y: "f x = Inr y" by auto
  from Cons obtain ys where ys: "comprehension f xs = Inr ys" "length ys = length xs"
    "\<forall>i < length xs. f (xs ! i) = Inr (ys ! i)" by auto
  have "\<forall>i < length (x # xs). f ((x # xs) ! i) = Inr ((y # ys) ! i)"
    using y ys(3) by (auto simp: nth_Cons')
  then show ?case using y ys(1,2) by auto
qed

lemma comprehension_length:
  "comprehension f xs = Inr ys \<Longrightarrow> length ys = length xs"
  by (induction xs arbitrary: ys) (auto split: sum.splits)

lemma entry_Track_ok:
  assumes "map_of tkvs ''track'' = Some tid" and "map_of tkvs ''info'' = Some ti"
  shows "entry_Track c st (JObj tkvs) = Inr (Track tid ti c None (Some st))"
  using assms by (simp add: entry_Track_def)

lemma get_tracks_generic:
  assumes "SPOTIFY_URL_REGEX_match (prefixed query search_type local) = None"
    and "DISCORD_MP3_URL_REGEX_match (prefixed query search_type local) = None"
  shows "get_tracks py_str loadtracks spotify_search self query c search_type local =
           load_result py_str (loadtracks (prefixed query search_type local)) c search_type"
  using assms by (simp add: get_tracks_def)

lemma well_formed_entry_Track:
  "well_formed_entry t \<Longrightarrow> \<exists>y. entry_Track c st t = Inr y"
  by (cases t) (auto simp: entry_Track_def)

lemma entry_Track_fields:
  "entry_Track c st t = Inr tr \<Longrightarrow>
     getitem t ''track'' = Inr (track_id tr) \<and> getitem t ''info'' = Inr (info tr)"
  by (auto simp: entry_Track_def split: sum.splits)

lemma load_result_tracks:
  assumes lt: "map_of kvs ''loadType'' = Some (JStr ''SEARCH_RESULT'') \<or> map_of kvs ''loadType'' = Some (JStr ''TRACK_LOADED'')"
    and ts: "map_of kvs ''tracks'' = Some (JArr ts)"
    and wf: "list_all well_formed_entry ts"
  shows "\<exists>result. load_result py_str (JObj kvs) c st = Inr (TrackList result)
            \<and> length result = length ts
            \<and> (\<forall>i < length ts. getitem (ts ! i) ''track'' = Inr (track_id (result ! i))
                  \<and> getitem (ts ! i) ''info'' = Inr (info (result ! i)))"
proof -
  have "\<forall>t \<in> set ts. \<exists>y. entry_Track c st t = Inr y"
    using wf well_formed_entry_Track by (auto simp: list_all_iff)
  then obtain result where r: "comprehension (entry_Track c st) ts = Inr result"
    "length result = length ts" "\<forall>i < length ts. entry_Track c st (ts ! i) = Inr (result ! i)"
    using comprehension_all_ok by blast
  have "getitem (ts ! i) ''track'' = Inr (track_id (result ! i))
      \<and> getitem (ts ! i) ''info'' = Inr (info (result ! i))" if "i < length ts" for i
    using r(3) that entry_Track_fields by blast
  moreover have "load_result py_str (JObj kvs) c st = Inr (TrackList result)"
    using lt ts r(1) by (auto simp: load_result_def)
  ultimately show ?thesis using r(2) by blast
qed

text \<open>
  Claim C3. For a query of the generic branch whose load response is an object: a
  missing \<^verbatim>\<open>loadType\<close> raises \<^verbatim>\<open>TrackLoadError\<close> with the tag
  \<^verbatim>\<open>NO_LOADTYPE\<close>; \<^verbatim>\<open>NO_MATCHES\<close> raises it with the tag \<^verbatim>\<open>NO_MATCHES\<close>;
  \<^verbatim>\<open>LOAD_FAILED\<close> raises it with the backend's message followed by its severity in
  brackets; \<^verbatim>\<open>PLAYLIST_LOADED\<close> returns a playlist that holds the backend's playlist
  metadata and whose track count is the length of the backend's track array;
  \<^verbatim>\<open>SEARCH_RESULT\<close> and \<^verbatim>\<open>TRACK_LOADED\<close> return a list with one track per entry of
  the track array, in order, each holding its entry's \<^verbatim>\<open>track\<close> and \<^verbatim>\<open>info\<close>.
\<close>

theorem load_result_by_loadType:
  assumes "SPOTIFY_URL_REGEX_match (prefixed query search_type local) = None"
    and "DISCORD_MP3_URL_REGEX_match (prefixed query search_type local) = None"
    and "loadtracks (prefixed query search_type local) = JObj kvs"
  shows "(map_of kvs ''loadType'' = None \<longrightarrow>
            get_tracks py_str loadtracks spotify_search self query c search_type local =
              Inl (TrackLoadError ''There was an error while trying to load this track. [NO_LOADTYPE]''))
       \<and> (map_of kvs ''loadType'' = Some (JStr ''NO_MATCHES'') \<longrightarrow>
            get_tracks py_str loadtracks spotify_search self query c search_type local =
              Inl (TrackLoadError ''No matches found. [NO_MATCHES]''))
       \<and> (map_of kvs ''loadType'' = Some (JStr ''LOAD_FAILED'') \<longrightarrow>
            (\<forall>ekvs m sev. map_of kvs ''exception'' = Some (JObj ekvs)
                \<and> map_of ekvs ''message'' = Some (JStr m)
                \<and> map_of ekvs ''severity'' = Some (JStr sev) \<longrightarrow>
              get_tracks py_str loadtracks spotify_search self query c search_type local =
                Inl (TrackLoadError (m @ '' ['' @ sev @ '']''))))
       \<and> (map_of kvs ''loadType'' = Some (JStr ''PLAYLIST_LOADED'') \<longrightarrow>
            (\<forall>pinfo ts. map_of kvs ''playlistInfo'' = Some pinfo
                \<and> map_of kvs ''tracks'' = Some (JArr ts) \<longrightarrow>
              (\<exists>p. get_tracks py_str loadtracks spotify_search self query c search_type local =
                      Inr (PlaylistResult p)
                 \<and> playlist_info p = pinfo \<and> track_count p = Some (length ts))))
       \<and> (map_of kvs ''loadType'' = Some (JStr ''SEARCH_RESULT'')
            \<or> map_of kvs ''loadType'' = Some (JStr ''TRACK_LOADED'') \<longrightarrow>
            (\<forall>ts. map_of kvs ''tracks'' = Some (JArr ts) \<and> list_all well_formed_entry ts \<longrightarrow>
              (\<exists>result. get_tracks py_str loadtracks spotify_search self query c search_type local =
                      Inr (TrackList result)
                 \<and> length result = length ts
                 \<and> (\<forall>i < length ts. getitem (ts ! i) ''track'' = Inr (track_id (result ! i))
                       \<and> getitem (ts ! i) ''info'' = Inr (info (result ! i))))))"
proof -
  have g: "get_tracks py_str loadtracks spotify_search self query c search_type local =
           load_result py_str (JObj kvs) c search_type"
    using get_tracks_generic [OF assms(1,2)] assms(3) by simp
  have 1: "map_of kvs ''loadType'' = None \<longrightarrow>
            load_result py_str (JObj kvs) c search_type =
              Inl (TrackLoadError ''There was an error while trying to load this track. [NO_LOADTYPE]'')"
    by (simp add: load_result_def)
  have 2: "map_of kvs ''loadType'' = Some (JStr ''NO_MATCHES'') \<longrightarrow>
            load_result py_str (JObj kvs) c search_type =
              Inl (TrackLoadError ''No matches found. [NO_MATCHES]'')"
    by (simp add: load_result_def)
  have 3: "map_of kvs ''loadType'' = Some (JStr ''LOAD_FAILED'') \<longrightarrow>
            (\<forall>ekvs m sev. map_of kvs ''exception'' = Some (JObj ekvs)
                \<and> map_of ekvs ''message'' = Some (JStr m)
                \<and> map_of ekvs ''severity'' = Some (JStr sev) \<longrightarrow>
              load_result py_str (JObj kvs) c search_type =
                Inl (TrackLoadError (m @ '' ['' @ sev @ '']'')))"
    by (simp add: load_result_def format_value_def)
  have 4: "map_of kvs ''loadType'' = Some (JStr ''PLAYLIST_LOADED'') \<longrightarrow>
            (\<forall>pinfo ts. map_of kvs ''playlistInfo'' = Some pinfo
                \<and> map_of kvs ''tracks'' = Some (JArr ts) \<longrightarrow>
              (\<exists>p. load_result py_str (JObj kvs) c search_type = Inr (PlaylistResult p)
                 \<and> playlist_info p = pinfo \<and> track_count p = Some (length ts)))"
    by (simp add: load_result_def)
  have 5: "map_of kvs ''loadType'' = Some (JStr ''SEARCH_RESULT'')
            \<or> map_of kvs ''loadType'' = Some (JStr ''TRACK_LOADED'') \<longrightarrow>
            (\<forall>ts. map_of kvs ''tracks'' = Some (JArr ts) \<and> list_all well_formed_entry ts \<longrightarrow>
              (\<exists>result. load_result py_str (JObj kvs) c search_type = Inr (TrackList result)
                 \<and> length result = length ts
                 \<and> (\<forall>i < length ts. getitem (ts ! i) ''track'' = Inr (track_id (result ! i))
                       \<and> getitem (ts ! i) ''info'' = Inr (info (result ! i)))))"
    using load_result_tracks by blast
  show ?thesis
    unfolding g using 1 2 3 4 5 by blast
qed

theorem load_result_by_loadType_witness:
  "get_tracks (\<lambda>v. []) (\<lambda>q. JObj [(''tracks'', JArr [])]) (\<lambda>q. Inl KeyError)
       (example_node ''C'' (Some True) []) ''never gonna'' None ''ytsearch'' False =
     Inl (TrackLoadError ''There was an error while trying to load this track. [NO_LOADTYPE]'')
   \<and> get_tracks (\<lambda>v. []) (\<lambda>q. example_response ''NO_MATCHES'') (\<lambda>q. Inl KeyError)
       (example_node ''C'' (Some True) []) ''never gonna'' None ''ytsearch'' False =
     Inl (TrackLoadError ''No matches found. [NO_MATCHES]'')
   \<and> get_tracks (\<lambda>v. []) (\<lambda>q. example_response ''LOAD_FAILED'') (\<lambda>q. Inl KeyError)
       (example_node ''C'' (Some True) []) ''never gonna'' None ''ytsearch'' False =
     Inl (TrackLoadError ''Video unavailable [COMMON]'')
   \<and> (\<exists>p. get_tracks (\<lambda>v. []) (\<lambda>q. example_response ''PLAYLIST_LOADED'') (\<lambda>q. Inl KeyError)
       (example_node ''C'' (Some True) []) ''never gonna'' None ''ytsearch'' False =
         Inr (PlaylistResult p) \<and> track_count p = Some 2)
   \<and> (\<exists>result. get_tracks (\<lambda>v. []) (\<lambda>q. example_response ''SEARCH_RESULT'') (\<lambda>q. Inl KeyError)
       (example_node ''C'' (Some True) []) ''never gonna'' None ''ytsearch'' False =
         Inr (TrackList result) \<and> length result = 2)
   \<and> (\<exists>result. get_tracks (\<lambda>v. []) (\<lambda>q. example_response ''TRACK_LOADED'') (\<lambda>q. Inl KeyError)
       (example_node ''C'' (Some True) []) ''never gonna'' None ''ytsearch'' False =
         Inr (TrackList result) \<and> length result = 2)"
proof -
  have q: "prefixed ''never gonna'' ''ytsearch'' False = ''ytsearch:never gonna''"
    by (simp add: prefixed_def URL_REGEX_at_def scheme_def)
  have g1: "SPOTIFY_URL_REGEX_match (prefixed ''never gonna'' ''ytsearch'' False) = None"
    unfolding q by (simp add: SPOTIFY_URL_REGEX_match_def scheme_def)
  have g2: "DISCORD_MP3_URL_REGEX_match (prefixed ''never gonna'' ''ytsearch'' False) = None"
    unfolding q by (simp add: DISCORD_MP3_URL_REGEX_match_def scheme_def)
  have r0: "(\<lambda>q. JObj [(''tracks'', JArr [])]) (prefixed ''never gonna'' ''ytsearch'' False) =
      JObj [(''tracks'', JArr [])]"
    by simp
  have r: "(\<lambda>q. example_response lt) (prefixed ''never gonna'' ''ytsearch'' False) =
      JObj [(''loadType'', JStr lt),
           (''playlistInfo'', JObj [(''name'', JStr ''Mix''), (''selectedTrack'', JNum 0)]),
           (''tracks'',
              JArr [JObj [(''track'', JStr ''QAAA''), (''info'', JObj [(''title'', JStr ''One'')])],
                    JObj [(''track'', JStr ''QAAB''), (''info'', JObj [(''title'', JStr ''Two'')])]]),
           (''exception'', JObj [(''message'', JStr ''Video unavailable''), (''severity'', JStr ''COMMON'')])]"
    for lt
    by (simp add: example_response_def)
  note c0 = load_result_by_loadType [OF g1 g2 r0, where py_str = "\<lambda>v. []"
      and spotify_search = "\<lambda>q. Inl KeyError" and self = "example_node ''C'' (Some True) []"
      and c = None]
  have 1: "get_tracks (\<lambda>v. []) (\<lambda>q. JObj [(''tracks'', JArr [])]) (\<lambda>q. Inl KeyError)
       (example_node ''C'' (Some True) []) ''never gonna'' None ''ytsearch'' False =
     Inl (TrackLoadError ''There was an error while trying to load this track. [NO_LOADTYPE]'')"
    using c0 by simp
  have 2: "get_tracks (\<lambda>v. []) (\<lambda>q. example_response ''NO_MATCHES'') (\<lambda>q. Inl KeyError)
       (example_node ''C'' (Some True) []) ''never gonna'' None ''ytsearch'' False =
     Inl (TrackLoadError ''No matches found. [NO_MATCHES]'')"
    using load_result_by_loadType [OF g1 g2 r [of "''NO_MATCHES''"], where py_str = "\<lambda>v. []"
      and spotify_search = "\<lambda>q. Inl KeyError" and self = "example_node ''C'' (Some True) []"
      and c = None] by simp
  have 3: "get_tracks (\<lambda>v. []) (\<lambda>q. example_response ''LOAD_FAILED'') (\<lambda>q. Inl KeyError)
       (example_node ''C'' (Some True) []) ''never gonna'' None ''ytsearch'' False =
     Inl (TrackLoadError ''Video unavailable [COMMON]'')"
    using load_result_by_loadType [OF g1 g2 r [of "''LOAD_FAILED''"], where py_str = "\<lambda>v. []"
      and spotify_search = "\<lambda>q. Inl KeyError" and self = "example_node ''C'' (Some True) []"
      and c = None] by simp
  have 4: "\<exists>p. get_tracks (\<lambda>v. []) (\<lambda>q. example_response ''PLAYLIST_LOADED'') (\<lambda>q. Inl KeyError)
       (example_node ''C'' (Some True) []) ''never gonna'' None ''ytsearch'' False =
         Inr (PlaylistResult p) \<and> track_count p = Some 2"
    using load_result_by_loadType [OF g1 g2 r [of "''PLAYLIST_LOADED''"], where py_str = "\<lambda>v. []"
      and spotify_search = "\<lambda>q. Inl KeyError" and self = "example_node ''C'' (Some True) []"
      and c = None] by (auto simp: numeral_2_eq_2)
  have 5: "\<exists>result. get_tracks (\<lambda>v. []) (\<lambda>q. example_response ''SEARCH_RESULT'') (\<lambda>q. Inl KeyError)
       (example_node ''C'' (Some True) []) ''never gonna'' None ''ytsearch'' False =
         Inr (TrackList result) \<and> length result = 2"
    using load_result_by_loadType [OF g1 g2 r [of "''SEARCH_RESULT''"], where py_str = "\<lambda>v. []"
      and spotify_search = "\<lambda>q. Inl KeyError" and self = "example_node ''C'' (Some True) []"
      and c = None] by auto
  have 6: "\<exists>result. get_tracks (\<lambda>v. []) (\<lambda>q. example_response ''TRACK_LOADED'') (\<lambda>q. Inl KeyError)
       (example_node ''C'' (Some True) []) ''never gonna'' None ''ytsearch'' False =
         Inr (TrackList result) \<and> length result = 2"
    using load_result_by_loadType [OF g1 g2 r [of "''TRACK_LOADED''"], where py_str = "\<lambda>v. []"
      and spotify_search = "\<lambda>q. Inl KeyError" and self = "example_node ''C'' (Some True) []"
      and c = None] by auto
  show ?thesis using 1 2 3 4 5 6 by blast
qed

end
